theory Spec2Isabelle
  imports Complex_Main
begin

section \<open>Python values and exceptions\<close>

text \<open>
  The analyzer (\<^verbatim>\<open>src/analyzer.py\<close>) is embedded function by function. Python's
  \<^verbatim>\<open>int\<close> is \<^typ>\<open>int\<close>; Python's \<^verbatim>\<open>float\<close> is read as \<^typ>\<open>real\<close>, so the
  arithmetic below is exact and the rounding error of binary floating point (and the
  special values nan and inf) is outside the model. A \<^verbatim>\<open>str\<close> is a \<^typ>\<open>string\<close>,
  each character standing for one code point. Every exception the code can meet is a
  value: a function that may raise returns \<open>exn + 'a\<close>, with \<open>Inl\<close> for the exception.
  The messages printed by the code are not part of the model.
\<close>

datatype exc_class =
    UnicodeDecodeError
  | FileNotFoundError
  | SyntaxError
  | ValueError
  | KeyError
  | ZeroDivisionError
  | OtherException

text \<open>An exception: its class and the text of \<^verbatim>\<open>str(e)\<close>.\<close>

datatype exn = Raised exc_class string

text \<open>
  \<^verbatim>\<open>isinstance(e, cls)\<close> for the classes an \<^verbatim>\<open>except\<close> clause of the analyzer names:
  \<^verbatim>\<open>UnicodeDecodeError\<close> derives from \<^verbatim>\<open>ValueError\<close>; the other listed classes are
  unrelated to each other.
\<close>

fun exc_isinstance :: "exn \<Rightarrow> exc_class \<Rightarrow> bool" where
  "exc_isinstance (Raised c msg) cls = (c = cls \<or> (c = UnicodeDecodeError \<and> cls = ValueError))"

fun exc_str :: "exn \<Rightarrow> string" where
  "exc_str (Raised c msg) = msg"

definition bind_exn :: "exn + 'a \<Rightarrow> ('a \<Rightarrow> exn + 'b) \<Rightarrow> exn + 'b" where
  "bind_exn r f = (case r of Inl e \<Rightarrow> Inl e | Inr v \<Rightarrow> f v)"

text \<open>\<^verbatim>\<open>metrics[key]\<close> on a dict: a missing key raises \<^verbatim>\<open>KeyError\<close>.\<close>

definition getitem :: "(string \<rightharpoonup> real) \<Rightarrow> string \<Rightarrow> exn + real" where
  "getitem d k = (case d k of None \<Rightarrow> Inl (Raised KeyError k) | Some v \<Rightarrow> Inr v)"

text \<open>\<^verbatim>\<open>a / b\<close>: true division raises \<^verbatim>\<open>ZeroDivisionError\<close> on a zero divisor.\<close>

definition truediv :: "real \<Rightarrow> real \<Rightarrow> exn + real" where
  "truediv a b = (if b = 0 then Inl (Raised ZeroDivisionError ''division by zero'') else Inr (a / b))"

section \<open>The scorer\<close>

text \<open>
  \<^verbatim>\<open>CodeAnalyzer._calculate_score\<close> (analyzer.py, lines 214-243). The running
  \<^verbatim>\<open>score\<close> variable is threaded through the steps in source order; every subscript
  of the dict may raise. The source reads some keys twice (once in the test and once in
  the penalty); the dict is not changed in between, so one lookup stands for both.
\<close>

definition calculate_score :: "(string \<rightharpoonup> real) \<Rightarrow> exn + real" where
  "calculate_score metrics =
     (let score = 100 in
      bind_exn (getitem metrics ''pep8_errors'') (\<lambda>pep8_errors.
      let score = score - min (pep8_errors * 2) 30 in
      bind_exn (getitem metrics ''pep8_warnings'') (\<lambda>pep8_warnings.
      let score = score - min (pep8_warnings * 0.5) 10 in
      bind_exn (getitem metrics ''max_complexity'') (\<lambda>max_complexity.
      let score = (if max_complexity > 10
                   then score - min ((max_complexity - 10) * 2) 20 else score) in
      bind_exn (getitem metrics ''avg_complexity'') (\<lambda>avg_complexity.
      let score = (if avg_complexity > 5
                   then score - min ((avg_complexity - 5) * 1) 10 else score) in
      bind_exn (getitem metrics ''maintainability'') (\<lambda>maintainability.
      let score = (if maintainability > 80 then score + 5
                   else if maintainability < 40 then score - 10 else score) in
      bind_exn (getitem metrics ''docstring_coverage'') (\<lambda>docstring_coverage.
      let score = score + min (docstring_coverage * 0.15) 15 in
      bind_exn (getitem metrics ''comment_density'') (\<lambda>comment_density.
      let score = (if 5 \<le> comment_density \<and> comment_density \<le> 20 then score + 5
                   else if comment_density < 2 then score - 5 else score) in
      Inr (max 0 (min 100 score))))))))))"

text \<open>
  The raw metrics handed to the scorer: the seven entries of the dict literal that
  \<^verbatim>\<open>analyze_file\<close> builds (analyzer.py, lines 107-115).
\<close>

record raw_metrics =
  raw_pep8_errors :: real
  raw_pep8_warnings :: real
  raw_avg_complexity :: real
  raw_max_complexity :: real
  raw_maintainability :: real
  raw_docstring_coverage :: real
  raw_comment_density :: real

definition metrics_dict :: "raw_metrics \<Rightarrow> (string \<rightharpoonup> real)" where
  "metrics_dict r =
     [''pep8_errors'' \<mapsto> raw_pep8_errors r,
      ''pep8_warnings'' \<mapsto> raw_pep8_warnings r,
      ''avg_complexity'' \<mapsto> raw_avg_complexity r,
      ''max_complexity'' \<mapsto> raw_max_complexity r,
      ''maintainability'' \<mapsto> raw_maintainability r,
      ''docstring_coverage'' \<mapsto> raw_docstring_coverage r,
      ''comment_density'' \<mapsto> raw_comment_density r]"

text \<open>
  The rubric as the specification words it (section 4.2, steps 1 to 8), written
  independently of \<^const>\<open>calculate_score\<close>: each step is the adjustment it names.
\<close>

definition rubric_errors :: "raw_metrics \<Rightarrow> real" where
  "rubric_errors r = - min (raw_pep8_errors r * 2) 30"

definition rubric_warnings :: "raw_metrics \<Rightarrow> real" where
  "rubric_warnings r = - min (raw_pep8_warnings r * 0.5) 10"

definition rubric_max_complexity :: "raw_metrics \<Rightarrow> real" where
  "rubric_max_complexity r =
     (if raw_max_complexity r > 10 then - min ((raw_max_complexity r - 10) * 2) 20 else 0)"

definition rubric_avg_complexity :: "raw_metrics \<Rightarrow> real" where
  "rubric_avg_complexity r =
     (if raw_avg_complexity r > 5 then - min ((raw_avg_complexity r - 5) * 1) 10 else 0)"

definition rubric_maintainability :: "raw_metrics \<Rightarrow> real" where
  "rubric_maintainability r =
     (if raw_maintainability r > 80 then 5 else if raw_maintainability r < 40 then - 10 else 0)"

definition rubric_docstrings :: "raw_metrics \<Rightarrow> real" where
  "rubric_docstrings r = min (raw_docstring_coverage r * 0.15) 15"

definition rubric_comments :: "raw_metrics \<Rightarrow> real" where
  "rubric_comments r =
     (if 5 \<le> raw_comment_density r \<and> raw_comment_density r \<le> 20 then 5
      else if raw_comment_density r < 2 then - 5 else 0)"

definition rubric_score :: "raw_metrics \<Rightarrow> real" where
  "rubric_score r =
     max 0 (min 100
       (100 + rubric_errors r + rubric_warnings r + rubric_max_complexity r
            + rubric_avg_complexity r + rubric_maintainability r
            + rubric_docstrings r + rubric_comments r))"

text \<open>The scenario of the specification (section 8) and the all-zero input.\<close>

definition scenario_metrics :: raw_metrics where
  "scenario_metrics =
     \<lparr>raw_pep8_errors = 0, raw_pep8_warnings = 0, raw_avg_complexity = 3,
      raw_max_complexity = 3, raw_maintainability = 90, raw_docstring_coverage = 100,
      raw_comment_density = 10\<rparr>"

definition zero_metrics :: raw_metrics where
  "zero_metrics =
     \<lparr>raw_pep8_errors = 0, raw_pep8_warnings = 0, raw_avg_complexity = 0,
      raw_max_complexity = 0, raw_maintainability = 0, raw_docstring_coverage = 0,
      raw_comment_density = 0\<rparr>"

text \<open>An input that meets every penalty: it scores 100 - 30 - 10 - 20 - 3 - 10 + 7.5 - 5.\<close>

definition poor_metrics :: raw_metrics where
  "poor_metrics =
     \<lparr>raw_pep8_errors = 20, raw_pep8_warnings = 30, raw_avg_complexity = 8,
      raw_max_complexity = 25, raw_maintainability = 30, raw_docstring_coverage = 50,
      raw_comment_density = 1\<rparr>"

section \<open>Strings\<close>

text \<open>
  \<^verbatim>\<open>s.split(sep)\<close> for a separator of one character: the text is cut at every
  occurrence of the separator, and empty segments (leading, trailing, between two
  separators) are kept.
\<close>

fun split_char :: "char \<Rightarrow> string \<Rightarrow> string list" where
  "split_char sep [] = [[]]"
| "split_char sep (c # cs) =
     (if c = sep then [] # split_char sep cs
      else (case split_char sep cs of
              [] \<Rightarrow> [[c]]
            | seg # segs \<Rightarrow> (c # seg) # segs))"

definition newline :: char where
  "newline = CHR 0x0A"

text \<open>
  \<^verbatim>\<open>str.isspace\<close> on one code point below 256: tab to carriage return, the four
  separators 0x1C to 0x1F, the space, NEL (0x85) and the no-break space (0xA0).
\<close>

definition isspace :: "char \<Rightarrow> bool" where
  "isspace c = (of_char c \<in> {9, 10, 11, 12, 13, 28, 29, 30, 31, 32, 133, 160 :: nat})"

text \<open>\<^verbatim>\<open>s.strip()\<close> removes the leading and the trailing whitespace.\<close>

definition strip :: "string \<Rightarrow> string" where
  "strip s = rev (dropWhile isspace (rev (dropWhile isspace s)))"

definition startswith :: "string \<Rightarrow> string \<Rightarrow> bool" where
  "startswith s p = (take (length p) s = p)"

text \<open>\<^verbatim>\<open>os.path.basename\<close> (POSIX): what follows the last slash.\<close>

definition basename :: "string \<Rightarrow> string" where
  "basename p = rev (takeWhile (\<lambda>c. c \<noteq> CHR ''/'') (rev p))"

text \<open>
  \<^verbatim>\<open>round(x, 2)\<close>: the nearest multiple of 0.01, a tie going to the even multiple.
\<close>

definition round_half_even :: "real \<Rightarrow> int" where
  "round_half_even x =
     (let f = \<lfloor>x\<rfloor>; d = x - of_int f
      in if d < 1 / 2 then f else if 1 / 2 < d then f + 1 else if even f then f else f + 1)"

definition py_round2 :: "real \<Rightarrow> real" where
  "py_round2 x = of_int (round_half_even (x * 100)) / 100"

section \<open>Syntax trees\<close>

text \<open>
  The tree \<^verbatim>\<open>ast.parse\<close> returns, with what the analyzer reads of a node: its class
  (those the analyzer tests with \<^verbatim>\<open>isinstance\<close>, the asynchronous function
  definition, which is a class of its own, the module, and \<open>OtherNode\<close> for every other
  one), the value of \<^verbatim>\<open>ast.get_docstring(node)\<close> (\<^verbatim>\<open>None\<close> or a string), and its
  child nodes in the order of \<^verbatim>\<open>ast.iter_child_nodes\<close>.
\<close>

datatype node_type = FunctionDef | AsyncFunctionDef | ClassDef | Module | OtherNode

datatype ast = Node (node_type: node_type) (get_docstring: "string option") (child_nodes: "ast list")

text \<open>
  \<^verbatim>\<open>ast.walk\<close>: breadth first, from a queue that starts with the root; a node is taken
  from the left, its children are appended on the right, and the node is yielded.
\<close>

fun walk_queue :: "ast list \<Rightarrow> ast list" where
  "walk_queue [] = []"
| "walk_queue (Node t doc children # todo) =
     Node t doc children # walk_queue (todo @ children)"

definition walk :: "ast \<Rightarrow> ast list" where
  "walk tree = walk_queue [tree]"

section \<open>The metric extractor\<close>

text \<open>
  \<^verbatim>\<open>_calculate_docstring_coverage\<close> (lines 186-202). The loop over \<^verbatim>\<open>ast.walk(tree)\<close>
  is a fold that carries \<^verbatim>\<open>entities_with_doc\<close>; the test
  \<^verbatim>\<open>docstring and len(docstring.strip()) > 0\<close> is \<open>has_docstring\<close>.
\<close>

definition has_docstring :: "ast \<Rightarrow> bool" where
  "has_docstring node =
     (case get_docstring node of
        None \<Rightarrow> False
      | Some docstring \<Rightarrow> docstring \<noteq> [] \<and> length (strip docstring) > 0)"

definition count_documented :: "ast \<Rightarrow> int \<Rightarrow> int" where
  "count_documented node entities_with_doc =
     (if node_type node = FunctionDef \<or> node_type node = ClassDef
      then (if has_docstring node then entities_with_doc + 1 else entities_with_doc)
      else entities_with_doc)"

definition calculate_docstring_coverage :: "ast \<Rightarrow> int \<Rightarrow> int \<Rightarrow> exn + real" where
  "calculate_docstring_coverage tree num_funcs num_classes =
     (let total_entities = num_funcs + num_classes in
      if total_entities = 0 then Inr 100
      else
        let entities_with_doc = fold count_documented (walk tree) 0 in
        bind_exn (truediv (of_int entities_with_doc) (of_int total_entities))
          (\<lambda>q. Inr (q * 100)))"

text \<open>\<^verbatim>\<open>_calculate_comment_density\<close> (lines 204-212).\<close>

definition calculate_comment_density :: "string \<Rightarrow> exn + real" where
  "calculate_comment_density code =
     (let lines = split_char newline code;
          total_lines = int (length lines) in
      if total_lines = 0 then Inr 0
      else
        let comment_lines = (\<Sum>line \<leftarrow> [line \<leftarrow> lines. startswith (strip line) ''#'']. (1::int)) in
        bind_exn (truediv (of_int comment_lines) (of_int total_lines))
          (\<lambda>q. Inr (q * 100)))"

text \<open>\<^verbatim>\<open>CodeMetrics\<close> (analyzer.py, lines 16-31).\<close>

record code_metrics =
  filename :: string
  lines_of_code :: int
  num_functions :: int
  num_classes :: int
  avg_complexity :: real
  max_complexity :: int
  maintainability_index :: real
  pep8_errors :: int
  pep8_warnings :: int
  docstring_coverage :: real
  comment_density :: real
  score :: real

text \<open>
  \<^verbatim>\<open>_create_error_metrics\<close> (lines 245-261). The message is printed only.
\<close>

definition create_error_metrics :: "string \<Rightarrow> string \<Rightarrow> code_metrics" where
  "create_error_metrics filename_arg error_msg =
     \<lparr>filename = basename filename_arg,
      lines_of_code = 0,
      num_functions = 0,
      num_classes = 0,
      avg_complexity = 0,
      max_complexity = 0,
      maintainability_index = 0,
      pep8_errors = 100,
      pep8_warnings = 0,
      docstring_coverage = 0,
      comment_density = 0,
      score = 0\<rparr>"

subsection \<open>What the analyzer asks of its environment\<close>

text \<open>
  \<^verbatim>\<open>analyze_file\<close> opens a file, and calls the parser, radon and flake8. Their
  outcomes are the fields of a \<open>world\<close>: reading a path under an encoding gives a text
  or raises, so do \<^verbatim>\<open>ast.parse\<close>, \<^verbatim>\<open>cc_visit\<close> (of whose result blocks the analyzer
  reads the \<^verbatim>\<open>complexity\<close> only) and \<^verbatim>\<open>mi_visit\<close>. \<^verbatim>\<open>_run_pep8_check\<close> (lines
  146-184) catches every exception of its subprocess calls itself and always returns a
  pair of integers; it enters as that pair.
\<close>

datatype encoding = UTF8 | CP1251

datatype py_value = IntVal int | FloatVal real | OtherVal

record world =
  read_file :: "string \<Rightarrow> encoding \<Rightarrow> exn + string"
  ast_parse :: "string \<Rightarrow> exn + ast"
  cc_visit :: "string \<Rightarrow> exn + int list"
  mi_visit :: "string \<Rightarrow> exn + py_value"
  run_pep8_check :: "string \<Rightarrow> int \<times> int"

text \<open>
  Lines 48-60: the file is read as UTF-8; on a decoding error it is read again as
  CP1251; every other failure, and every failure of the second reading, ends the
  analysis with the message that goes to \<^verbatim>\<open>_create_error_metrics\<close>.
\<close>

datatype read_result = Code string | Failed string

definition read_source :: "world \<Rightarrow> string \<Rightarrow> read_result" where
  "read_source w filepath =
     (case read_file w filepath UTF8 of
        Inr code \<Rightarrow> Code code
      | Inl e \<Rightarrow>
          if exc_isinstance e UnicodeDecodeError then
            (case read_file w filepath CP1251 of
               Inr code \<Rightarrow> Code code
             | Inl e' \<Rightarrow> Failed (''Encoding Error: '' @ exc_str e'))
          else if exc_isinstance e FileNotFoundError then Failed ''File Not Found''
          else Failed (''Read Error: '' @ exc_str e))"

text \<open>
  Lines 73-82: average and maximum of the complexities; any exception inside the
  \<^verbatim>\<open>try\<close> gives 0 and 0.
\<close>

definition py_max :: "int list \<Rightarrow> int" where
  "py_max xs = (case xs of [] \<Rightarrow> 0 | x # rest \<Rightarrow> fold max rest x)"

definition complexity_stats :: "exn + int list \<Rightarrow> real \<times> int" where
  "complexity_stats visited =
     (case visited of
        Inl e \<Rightarrow> (0, 0)
      | Inr complexities \<Rightarrow>
          (case (if complexities \<noteq> []
                 then truediv (of_int (sum_list complexities))
                        (of_int (int (length complexities)))
                 else Inr 0) of
             Inl e \<Rightarrow> (0, 0)
           | Inr avg \<Rightarrow> (avg, if complexities \<noteq> [] then py_max complexities else 0)))"

text \<open>
  Lines 85-92: the maintainability index is kept when it is an \<^verbatim>\<open>int\<close> or a
  \<^verbatim>\<open>float\<close>; anything else, and any exception, gives 0.0.
\<close>

definition maintainability_score :: "exn + py_value \<Rightarrow> real" where
  "maintainability_score visited =
     (case visited of
        Inl e \<Rightarrow> 0
      | Inr (IntVal i) \<Rightarrow> of_int i
      | Inr (FloatVal x) \<Rightarrow> x
      | Inr OtherVal \<Rightarrow> 0)"

text \<open>
  Lines 67-131: the success record. The score is computed from the measurements as
  they are; every real field, the score included, is rounded to two decimals when it
  is stored.
\<close>

definition analyze_parsed :: "world \<Rightarrow> string \<Rightarrow> string \<Rightarrow> ast \<Rightarrow> exn + code_metrics" where
  "analyze_parsed w filepath code tree =
     (let loc = int (length (split_char newline code));
          num_funcs = int (length [n \<leftarrow> walk tree. node_type n = FunctionDef]);
          num_cls = int (length [n \<leftarrow> walk tree. node_type n = ClassDef]);
          (avg, mx) = complexity_stats (cc_visit w code);
          mi_score = maintainability_score (mi_visit w code);
          (errors, warnings) = run_pep8_check w filepath
      in
      bind_exn (calculate_docstring_coverage tree num_funcs num_cls) (\<lambda>coverage.
      bind_exn (calculate_comment_density code) (\<lambda>density.
      bind_exn (calculate_score
                  (metrics_dict
                     \<lparr>raw_pep8_errors = of_int errors,
                      raw_pep8_warnings = of_int warnings,
                      raw_avg_complexity = avg,
                      raw_max_complexity = of_int mx,
                      raw_maintainability = mi_score,
                      raw_docstring_coverage = coverage,
                      raw_comment_density = density\<rparr>)) (\<lambda>score_value.
      Inr \<lparr>filename = basename filepath,
           lines_of_code = loc,
           num_functions = num_funcs,
           num_classes = num_cls,
           avg_complexity = py_round2 avg,
           max_complexity = mx,
           maintainability_index = py_round2 mi_score,
           pep8_errors = errors,
           pep8_warnings = warnings,
           docstring_coverage = py_round2 coverage,
           comment_density = py_round2 density,
           score = py_round2 score_value\<rparr>))))"

text \<open>\<^verbatim>\<open>analyze_file\<close> (lines 46-131).\<close>

definition analyze_file :: "world \<Rightarrow> string \<Rightarrow> exn + code_metrics" where
  "analyze_file w filepath =
     (case read_source w filepath of
        Failed error_msg \<Rightarrow> Inr (create_error_metrics filepath error_msg)
      | Code code \<Rightarrow>
          (case ast_parse w code of
             Inl e \<Rightarrow>
               if exc_isinstance e SyntaxError \<or> exc_isinstance e ValueError
               then Inr (create_error_metrics filepath (''Syntax Error: '' @ exc_str e))
               else Inl e
           | Inr tree \<Rightarrow> analyze_parsed w filepath code tree))"

section \<open>Properties of the scorer\<close>

lemma getitem_Some: "d k = Some v \<Longrightarrow> getitem d k = Inr v"
  by (simp add: getitem_def)

lemma metrics_dict_lookup:
  "metrics_dict r ''pep8_errors'' = Some (raw_pep8_errors r)"
  "metrics_dict r ''pep8_warnings'' = Some (raw_pep8_warnings r)"
  "metrics_dict r ''avg_complexity'' = Some (raw_avg_complexity r)"
  "metrics_dict r ''max_complexity'' = Some (raw_max_complexity r)"
  "metrics_dict r ''maintainability'' = Some (raw_maintainability r)"
  "metrics_dict r ''docstring_coverage'' = Some (raw_docstring_coverage r)"
  "metrics_dict r ''comment_density'' = Some (raw_comment_density r)"
  by (simp_all add: metrics_dict_def)

lemma map_le_lookup: "m \<subseteq>\<^sub>m d \<Longrightarrow> m k = Some v \<Longrightarrow> d k = Some v"
  by (metis domI map_le_def)

lemma getitem_metrics_dict:
  assumes "metrics_dict r \<subseteq>\<^sub>m d"
  shows "getitem d ''pep8_errors'' = Inr (raw_pep8_errors r)"
    "getitem d ''pep8_warnings'' = Inr (raw_pep8_warnings r)"
    "getitem d ''avg_complexity'' = Inr (raw_avg_complexity r)"
    "getitem d ''max_complexity'' = Inr (raw_max_complexity r)"
    "getitem d ''maintainability'' = Inr (raw_maintainability r)"
    "getitem d ''docstring_coverage'' = Inr (raw_docstring_coverage r)"
    "getitem d ''comment_density'' = Inr (raw_comment_density r)"
  by (rule getitem_Some, rule map_le_lookup [OF assms], rule metrics_dict_lookup)+

text \<open>
  Threading the running score through the seven adjustments is adding the seven
  adjustments to the base: stated for arbitrary penalties and tests, so that the
  proof is ring arithmetic only.
\<close>

lemma thread_steps:
  fixes a b m1 m2 dd :: real
  shows "(let score = 100;
           score = score - a;
           score = score - b;
           score = (if c1 then score - m1 else score);
           score = (if c2 then score - m2 else score);
           score = (if c3 then score + 5 else if c4 then score - 10 else score);
           score = score + dd;
           score = (if c5 then score + 5 else if c6 then score - 5 else score)
         in k score)
       = k (100 + - a + - b + (if c1 then - m1 else 0) + (if c2 then - m2 else 0)
           + (if c3 then 5 else if c4 then - 10 else 0) + dd
           + (if c5 then 5 else if c6 then - 5 else 0))"
  by (simp add: Let_def algebra_simps)

text \<open>
  On any dict that holds the seven entries, whatever else it holds, the scorer returns
  without raising, and what it returns is the rubric.
\<close>

lemma calculate_score_is_rubric:
  assumes "metrics_dict r \<subseteq>\<^sub>m d"
  shows "calculate_score d = Inr (rubric_score r)"
  unfolding calculate_score_def rubric_score_def rubric_errors_def rubric_warnings_def
      rubric_max_complexity_def rubric_avg_complexity_def rubric_maintainability_def
      rubric_docstrings_def rubric_comments_def
  by (simp only: getitem_metrics_dict [OF assms] bind_exn_def sum.case thread_steps)

lemma calculate_score_metrics_dict:
  "calculate_score (metrics_dict r) = Inr (rubric_score r)"
  by (rule calculate_score_is_rubric) (rule map_le_refl)

lemma rubric_score_bounds: "0 \<le> rubric_score r \<and> rubric_score r \<le> 100"
  by (simp add: rubric_score_def)

lemma clamp_mono:
  fixes x y :: real
  shows "x \<le> y \<Longrightarrow> max 0 (min 100 x) \<le> max 0 (min 100 y)"
  by (simp add: max.coboundedI2 min.coboundedI2)

lemma rubric_score_scenario: "rubric_score scenario_metrics = 100"
  by (simp add: rubric_score_def rubric_errors_def rubric_warnings_def
      rubric_max_complexity_def rubric_avg_complexity_def rubric_maintainability_def
      rubric_docstrings_def rubric_comments_def scenario_metrics_def)

lemma rubric_score_zero: "rubric_score zero_metrics = 85"
  by (simp add: rubric_score_def rubric_errors_def rubric_warnings_def
      rubric_max_complexity_def rubric_avg_complexity_def rubric_maintainability_def
      rubric_docstrings_def rubric_comments_def zero_metrics_def)

lemma rubric_score_mono_errors:
  assumes "e \<le> e'"
  shows "rubric_score (r\<lparr>raw_pep8_errors := e'\<rparr>) \<le> rubric_score (r\<lparr>raw_pep8_errors := e\<rparr>)"
proof -
  have "min (e * 2) 30 \<le> min (e' * 2) 30"
    using assms by (intro min.mono) simp_all
  then show ?thesis
    unfolding rubric_score_def
    by (intro clamp_mono)
       (simp add: rubric_errors_def rubric_warnings_def rubric_max_complexity_def
          rubric_avg_complexity_def rubric_maintainability_def rubric_docstrings_def
          rubric_comments_def)
qed

lemma rubric_score_mono_docstrings:
  assumes "c \<le> c'"
  shows "rubric_score (r\<lparr>raw_docstring_coverage := c\<rparr>)
           \<le> rubric_score (r\<lparr>raw_docstring_coverage := c'\<rparr>)"
proof -
  have "min (c * 0.15) 15 \<le> min (c' * 0.15) 15"
    using assms by (intro min.mono) simp_all
  then show ?thesis
    unfolding rubric_score_def
    by (intro clamp_mono)
       (simp add: rubric_errors_def rubric_warnings_def rubric_max_complexity_def
          rubric_avg_complexity_def rubric_maintainability_def rubric_docstrings_def
          rubric_comments_def)
qed

text \<open>
  Claim C1. The scorer is total and clamped: on every raw-metrics input, that is, every
  dict that carries the seven metric entries with any real values, the all-zero input
  included, \<^verbatim>\<open>_calculate_score\<close> returns a number \<open>v\<close> with \<open>0 \<le> v \<le> 100\<close> and does
  not raise.
\<close>

theorem calculate_score_total_clamped:
  assumes "metrics_dict r \<subseteq>\<^sub>m d"
  shows "\<exists>v. calculate_score d = Inr v \<and> 0 \<le> v \<and> v \<le> 100"
  using calculate_score_is_rubric [OF assms] rubric_score_bounds [of r] by simp

theorem calculate_score_total_clamped_witness:
  "metrics_dict zero_metrics \<subseteq>\<^sub>m metrics_dict zero_metrics
   \<and> (\<exists>v. calculate_score (metrics_dict zero_metrics) = Inr v \<and> 0 \<le> v \<and> v \<le> 100)"
  using calculate_score_total_clamped [of zero_metrics "metrics_dict zero_metrics"]
  by simp

text \<open>
  Claim C2. On every raw-metrics input \<^verbatim>\<open>_calculate_score\<close> equals the eight-step
  rubric of the specification (\<^const>\<open>rubric_score\<close>: base 100, the two style
  penalties, the two complexity penalties, the maintainability adjustment, the
  documentation bonus, the comment-density adjustment, the clamp to \<open>[0, 100]\<close>); and
  the scenario input (errors 0, warnings 0, average 3, maximum 3, maintainability 90,
  coverage 100, density 10) scores exactly 100.
\<close>

theorem calculate_score_equals_rubric:
  "(metrics_dict r \<subseteq>\<^sub>m d \<longrightarrow> calculate_score d = Inr (rubric_score r))
   \<and> calculate_score (metrics_dict scenario_metrics) = Inr 100"
  using calculate_score_is_rubric [of r d]
    calculate_score_is_rubric [of scenario_metrics "metrics_dict scenario_metrics"]
  by (simp add: rubric_score_scenario)

lemma rubric_score_poor: "rubric_score poor_metrics = 59 / 2"
  by (simp add: rubric_score_def rubric_errors_def rubric_warnings_def
      rubric_max_complexity_def rubric_avg_complexity_def rubric_maintainability_def
      rubric_docstrings_def rubric_comments_def poor_metrics_def)

theorem calculate_score_equals_rubric_witness:
  "metrics_dict poor_metrics \<subseteq>\<^sub>m metrics_dict poor_metrics
   \<and> calculate_score (metrics_dict poor_metrics) = Inr (59 / 2)"
  using calculate_score_equals_rubric [of poor_metrics "metrics_dict poor_metrics"]
  by (simp add: rubric_score_poor)

text \<open>
  Claim C5. Monotonicity of the scorer: of two inputs that differ in \<^verbatim>\<open>pep8_errors\<close>
  only, the one with the larger error count scores no higher; of two inputs that differ
  in \<^verbatim>\<open>docstring_coverage\<close> only, the one with the larger coverage scores no lower.
\<close>

theorem calculate_score_monotone:
  "(e \<le> e' \<longrightarrow>
      (\<exists>v v'. calculate_score (metrics_dict (r\<lparr>raw_pep8_errors := e\<rparr>)) = Inr v
         \<and> calculate_score (metrics_dict (r\<lparr>raw_pep8_errors := e'\<rparr>)) = Inr v'
         \<and> v' \<le> v))
   \<and> (c \<le> c' \<longrightarrow>
      (\<exists>v v'. calculate_score (metrics_dict (r\<lparr>raw_docstring_coverage := c\<rparr>)) = Inr v
         \<and> calculate_score (metrics_dict (r\<lparr>raw_docstring_coverage := c'\<rparr>)) = Inr v'
         \<and> v \<le> v'))"
  using rubric_score_mono_errors [of e e' r] rubric_score_mono_docstrings [of c c' r]
  by (simp add: calculate_score_metrics_dict)

theorem calculate_score_monotone_witness:
  "(0::real) \<le> 5
   \<and> (\<exists>v v'. calculate_score (metrics_dict (zero_metrics\<lparr>raw_pep8_errors := 0\<rparr>)) = Inr v
         \<and> calculate_score (metrics_dict (zero_metrics\<lparr>raw_pep8_errors := 5\<rparr>)) = Inr v'
         \<and> v' \<le> v)
   \<and> (0::real) \<le> 100
   \<and> (\<exists>v v'. calculate_score (metrics_dict (zero_metrics\<lparr>raw_docstring_coverage := 0\<rparr>)) = Inr v
         \<and> calculate_score (metrics_dict (zero_metrics\<lparr>raw_docstring_coverage := 100\<rparr>)) = Inr v'
         \<and> v \<le> v')"
  using calculate_score_monotone [of 0 5 zero_metrics 0 100] by simp

end
